theory Spec2Isabelle
  imports Complex_Main "HOL-Library.Multiset"
begin

section \<open>Permission records and JSON permission blobs\<close>

text \<open>
  A permission set is a fixed record of five independent boolean flags
  (the type \<open>Permissions\<close> imported from the shared schema by
  \<open>server/storage.ts\<close>).
\<close>

record Permissions =
  canManageUsers :: bool
  canViewAllSpecialties :: bool
  canViewPrices :: bool
  canEditPrices :: bool
  canAudit :: bool

definition AllTrue :: Permissions where
  "AllTrue = \<lparr>canManageUsers = True, canViewAllSpecialties = True, canViewPrices = True,
     canEditPrices = True, canAudit = True\<rparr>"

definition AllFalse :: Permissions where
  "AllFalse = \<lparr>canManageUsers = False, canViewAllSpecialties = False, canViewPrices = False,
     canEditPrices = False, canAudit = False\<rparr>"

text \<open>The pointwise boolean ordering on permission records (\<open>False \<le> True\<close> per flag).\<close>

definition perm_le :: "Permissions \<Rightarrow> Permissions \<Rightarrow> bool" where
  "perm_le P Q =
     ((canManageUsers P \<le> canManageUsers Q) \<and>
      (canViewAllSpecialties P \<le> canViewAllSpecialties Q) \<and>
      (canViewPrices P \<le> canViewPrices Q) \<and>
      (canEditPrices P \<le> canEditPrices Q) \<and>
      (canAudit P \<le> canAudit Q))"

text \<open>
  Modelled from the spec: \<open>capPermissions\<close> is imported by \<open>server/storage.ts\<close> from
  the shared schema module, which is not among the source files. The spec (4.1) gives its
  contract: for each of the five flags, effective = job flag AND company flag.
\<close>

definition capPermissions :: "Permissions \<Rightarrow> Permissions \<Rightarrow> Permissions" where
  "capPermissions jobPerms companyPerms =
     \<lparr>canManageUsers = canManageUsers jobPerms \<and> canManageUsers companyPerms,
      canViewAllSpecialties = canViewAllSpecialties jobPerms \<and> canViewAllSpecialties companyPerms,
      canViewPrices = canViewPrices jobPerms \<and> canViewPrices companyPerms,
      canEditPrices = canEditPrices jobPerms \<and> canEditPrices companyPerms,
      canAudit = canAudit jobPerms \<and> canAudit companyPerms\<rparr>"

text \<open>
  Permission sets are stored as JSON text (the \<open>permissions\<close> columns of
  \<open>company_users\<close> and \<open>job_assignments\<close>). A parsed JSON value:
\<close>

datatype json =
    JNull
  | JBool bool
  | JNum rat
  | JStr string
  | JArr "json list"
  | JObj "(string \<times> json) list"

text \<open>JavaScript truthiness of a JSON value (what \<open>if (v)\<close>, \<open>!v\<close> and \<open>||\<close> test).\<close>

fun truthy :: "json \<Rightarrow> bool" where
  "truthy JNull = False"
| "truthy (JBool b) = b"
| "truthy (JNum n) = (n \<noteq> 0)"
| "truthy (JStr s) = (s \<noteq> [])"
| "truthy (JArr xs) = True"
| "truthy (JObj kvs) = True"

text \<open>
  A plain object at run time: its own enumerable properties. Reading a property that is
  absent gives \<open>undefined\<close>, which is falsy.
\<close>

type_synonym jsobject = "string \<rightharpoonup> json"

definition truthyProp :: "jsobject \<Rightarrow> string \<Rightarrow> bool" where
  "truthyProp obj k = (case obj k of None \<Rightarrow> False | Some v \<Rightarrow> truthy v)"

text \<open>Array indices and string positions as property names (\<open>"0"\<close>, \<open>"1"\<close>, ...).\<close>

fun decimal :: "nat \<Rightarrow> string" where
  "decimal n =
     (if n < 10 then [''0123456789'' ! n]
      else decimal (n div 10) @ [''0123456789'' ! (n mod 10)])"

text \<open>
  The properties an object spread \<open>{ ...v }\<close> copies from a parsed JSON value: the members
  of an object, the indexed elements of an array, the indexed characters of a string, and
  nothing from \<open>null\<close>, a number or a boolean.
\<close>

fun ownProps :: "json \<Rightarrow> (string \<times> json) list" where
  "ownProps (JObj kvs) = kvs"
| "ownProps (JArr xs) = zip (map decimal [0..<length xs]) xs"
| "ownProps (JStr s) = zip (map decimal [0..<length s]) (map (\<lambda>c. JStr [c]) s)"
| "ownProps JNull = []"
| "ownProps (JBool b) = []"
| "ownProps (JNum n) = []"

text \<open>\<open>{ ...a, ...v }\<close>: later properties override earlier ones of the same name.\<close>

definition spread :: "jsobject \<Rightarrow> json \<Rightarrow> jsobject" where
  "spread a v = a ++ map_of (rev (ownProps v))"

text \<open>The five flag names, and a typed permission record as a run-time object.\<close>

definition flagNames :: "string list" where
  "flagNames = [''canManageUsers'', ''canViewAllSpecialties'', ''canViewPrices'',
     ''canEditPrices'', ''canAudit'']"

definition permObject :: "Permissions \<Rightarrow> jsobject" where
  "permObject P =
     [''canManageUsers'' \<mapsto> JBool (canManageUsers P),
      ''canViewAllSpecialties'' \<mapsto> JBool (canViewAllSpecialties P),
      ''canViewPrices'' \<mapsto> JBool (canViewPrices P),
      ''canEditPrices'' \<mapsto> JBool (canEditPrices P),
      ''canAudit'' \<mapsto> JBool (canAudit P)]"

text \<open>
  The flags of a run-time object as the code tests them (\<open>perms.canViewPrices\<close> in a
  condition): an absent or falsy flag counts as false.
\<close>

definition asPermissions :: "jsobject \<Rightarrow> Permissions" where
  "asPermissions obj =
     \<lparr>canManageUsers = truthyProp obj ''canManageUsers'',
      canViewAllSpecialties = truthyProp obj ''canViewAllSpecialties'',
      canViewPrices = truthyProp obj ''canViewPrices'',
      canEditPrices = truthyProp obj ''canEditPrices'',
      canAudit = truthyProp obj ''canAudit''\<rparr>"

text \<open>
  \<open>parsePermissions\<close> (\<open>server/storage.ts\<close>). Two things it uses are not in the source
  files and are parameters here: the constant \<open>DEFAULT_EMPLOYEE_PERMISSIONS\<close> of the
  shared schema (\<open>D\<close>), and the platform's \<open>JSON.parse\<close> (\<open>parse\<close>, which gives \<open>None\<close>
  where \<open>JSON.parse\<close> throws a SyntaxError). \<open>raw\<close> is \<open>string | null\<close>; \<open>!raw\<close> holds for
  \<open>null\<close> and for the empty string. The \<open>catch\<close> branch returns the baseline.
\<close>

definition parsePermissions ::
  "Permissions \<Rightarrow> (string \<Rightarrow> json option) \<Rightarrow> string option \<Rightarrow> jsobject" where
  "parsePermissions D parse raw =
     (case raw of
        None \<Rightarrow> permObject D
      | Some s \<Rightarrow>
          if s = [] then permObject D
          else (case parse s of
                  None \<Rightarrow> permObject D
                | Some parsed \<Rightarrow> spread (permObject D) parsed))"

section \<open>The tables the access model reads\<close>

text \<open>
  Rows carry the columns the access model and the redaction read. Integer keys are
  \<open>int\<close>; a nullable column is an \<open>option\<close>.
\<close>

record Job =
  job_id :: int
  job_companyId :: int
  job_specialtyId :: "int option"
  job_status :: string
  job_createdAt :: int

record JobItem =
  item_id :: int
  item_jobId :: int
  item_qty :: string
  item_unitPrice :: string
  item_lineTotal :: string

record JobAssignment =
  asg_jobId :: int
  asg_userId :: int
  asg_permissions :: "string option"

record Company =
  co_id :: int
  co_tradeId :: "int option"

record CompanyUser =
  cu_companyId :: int
  cu_userId :: int
  cu_role :: string
  cu_permissions :: "string option"

record Specialty =
  spec_id :: int
  spec_tradeId :: int

record UserSpecialty =
  us_companyId :: int
  us_userId :: int
  us_specialtyId :: int

record Service =
  svc_id :: int
  svc_companyId :: int
  svc_specialtyId :: int
  svc_active :: bool
  svc_unitPrice :: "string option"

record Database =
  jobs :: "Job list"
  jobItems :: "JobItem list"
  jobAssignments :: "JobAssignment list"
  companies :: "Company list"
  companyUsers :: "CompanyUser list"
  specialties :: "Specialty list"
  userSpecialties :: "UserSpecialty list"
  services :: "Service list"

record Stats =
  total :: nat
  drafts :: nat
  sent :: nat
  approved :: nat
  inProgress :: nat
  doneJobs :: nat

record JobsListResponse =
  items :: "Job list"
  stats :: Stats

record JobWithItems =
  jw_job :: Job
  jw_items :: "JobItem list"
  myRole :: string
  permissions :: "Permissions option"
  companyPermissions :: "jsobject option"

section \<open>The access model of \<open>DatabaseStorage\<close>\<close>

text \<open>
  \<open>getCompanyTradeId\<close>: the first company row with the id, \<open>co?.tradeId || 0\<close>.
\<close>

definition getCompanyTradeId :: "Database \<Rightarrow> int \<Rightarrow> int" where
  "getCompanyTradeId db companyId =
     (case find (\<lambda>co. co_id co = companyId) (companies db) of
        None \<Rightarrow> 0
      | Some co \<Rightarrow>
          (case co_tradeId co of None \<Rightarrow> 0 | Some t \<Rightarrow> if t \<noteq> 0 then t else 0))"

text \<open>\<open>getCompanyUserPermissions\<close>: the membership row's blob, or the baseline without a row.\<close>

definition getCompanyUserPermissions ::
  "Permissions \<Rightarrow> (string \<Rightarrow> json option) \<Rightarrow> Database \<Rightarrow> int \<Rightarrow> int \<Rightarrow> jsobject" where
  "getCompanyUserPermissions D parse db companyId userId =
     (case find (\<lambda>cu. cu_companyId cu = companyId \<and> cu_userId cu = userId) (companyUsers db) of
        None \<Rightarrow> permObject D
      | Some cu \<Rightarrow> parsePermissions D parse (cu_permissions cu))"

text \<open>The two queries of \<open>getAllowedSpecialtyIds\<close>.\<close>

definition tradeSpecialtyIds :: "Database \<Rightarrow> int \<Rightarrow> int list" where
  "tradeSpecialtyIds db tradeId =
     map spec_id (filter (\<lambda>s. spec_tradeId s = tradeId) (specialties db))"

definition assignedSpecialtyIds :: "Database \<Rightarrow> int \<Rightarrow> int \<Rightarrow> int list" where
  "assignedSpecialtyIds db userId companyId =
     map us_specialtyId
       (filter (\<lambda>r. us_userId r = userId \<and> us_companyId r = companyId) (userSpecialties db))"

definition getAllowedSpecialtyIds ::
  "Permissions \<Rightarrow> (string \<Rightarrow> json option) \<Rightarrow> Database \<Rightarrow> int \<Rightarrow> int \<Rightarrow> string \<Rightarrow> int list" where
  "getAllowedSpecialtyIds D parse db userId companyId role =
     (if role = ''SUPPORT'' then []
      else
        let companyTradeId = getCompanyTradeId db companyId in
        if (role = ''OWNER'' \<or> role = ''ADMIN'') \<and>
           (let perms = getCompanyUserPermissions D parse db companyId userId
            in role = ''OWNER'' \<or> truthyProp perms ''canViewAllSpecialties'')
        then tradeSpecialtyIds db companyTradeId
        else assignedSpecialtyIds db userId companyId)"

text \<open>
  \<open>getJobs\<close>. The company's jobs are selected in \<open>createdAt\<close> order; the stats are
  computed from the list that is returned.
\<close>

definition companyJobs :: "Database \<Rightarrow> int \<Rightarrow> Job list" where
  "companyJobs db companyId =
     sort_key job_createdAt (filter (\<lambda>j. job_companyId j = companyId) (jobs db))"

definition noJobs :: JobsListResponse where
  "noJobs = \<lparr>items = [],
     stats = \<lparr>total = 0, drafts = 0, sent = 0, approved = 0, inProgress = 0, doneJobs = 0\<rparr>\<rparr>"

definition withStats :: "Job list \<Rightarrow> JobsListResponse" where
  "withStats jobsList =
     \<lparr>items = jobsList,
      stats = \<lparr>total = length jobsList,
               drafts = length (filter (\<lambda>j. job_status j = ''DRAFT'') jobsList),
               sent = length (filter (\<lambda>j. job_status j = ''SENT'') jobsList),
               approved = length (filter (\<lambda>j. job_status j = ''APPROVED'') jobsList),
               inProgress = length (filter (\<lambda>j. job_status j = ''IN_PROGRESS'') jobsList),
               doneJobs = length (filter (\<lambda>j. job_status j = ''DONE'') jobsList)\<rparr>\<rparr>"

definition getJobs ::
  "Permissions \<Rightarrow> (string \<Rightarrow> json option) \<Rightarrow> Database \<Rightarrow> int \<Rightarrow> string \<Rightarrow> int
     \<Rightarrow> JobsListResponse" where
  "getJobs D parse db userId role companyId =
     (if role = ''SUPPORT'' then noJobs
      else if role = ''OWNER'' \<or> role = ''ADMIN'' then withStats (companyJobs db companyId)
      else
        let companyPerms = getCompanyUserPermissions D parse db companyId userId;
            assignments = filter (\<lambda>a. asg_userId a = userId) (jobAssignments db);
            jobIds = map asg_jobId assignments;
            userSpecIds = getAllowedSpecialtyIds D parse db userId companyId role
        in
          if jobIds = [] \<and> userSpecIds = [] then noJobs
          else
            let allJobs = companyJobs db companyId;
                jobsList = filter (\<lambda>j. job_id j \<in> set jobIds \<or>
                    (case job_specialtyId j of
                       None \<Rightarrow> False
                     | Some s \<Rightarrow> s \<noteq> 0 \<and> s \<in> set userSpecIds)) allJobs;
                assignmentMap = map_of (rev (map (\<lambda>a. (asg_jobId a, a)) assignments));
                jobsList' = map (\<lambda>j.
                    let assignment = assignmentMap (job_id j);
                        jobPerms = parsePermissions D parse
                          (case assignment of None \<Rightarrow> None | Some a \<Rightarrow> asg_permissions a);
                        perms = capPermissions (asPermissions jobPerms) (asPermissions companyPerms)
                    in j) jobsList
            in withStats jobsList')"

text \<open>
  \<open>getJob\<close>. \<open>None\<close> is \<open>undefined\<close>. The job is loaded with its items; a caller that is
  neither OWNER nor ADMIN needs a job-assignment row, and sees prices only if the capped
  permissions allow it.
\<close>

definition getJob ::
  "Permissions \<Rightarrow> (string \<Rightarrow> json option) \<Rightarrow> Database \<Rightarrow> int \<Rightarrow> int \<Rightarrow> string \<Rightarrow> int
     \<Rightarrow> JobWithItems option" where
  "getJob D parse db jid userId role companyId =
     (if role = ''SUPPORT'' then None
      else
        (case find (\<lambda>j. job_id j = jid \<and> job_companyId j = companyId) (jobs db) of
           None \<Rightarrow> None
         | Some job \<Rightarrow>
             (let its = filter (\<lambda>it. item_jobId it = job_id job) (jobItems db) in
              if role = ''OWNER'' \<or> role = ''ADMIN'' then
                Some \<lparr>jw_job = job, jw_items = its, myRole = ''OWNER'',
                      permissions = None, companyPermissions = None\<rparr>
              else
                (case find (\<lambda>a. asg_jobId a = jid \<and> asg_userId a = userId)
                        (jobAssignments db) of
                   None \<Rightarrow> None
                 | Some assignment \<Rightarrow>
                     (let companyPerms = getCompanyUserPermissions D parse db companyId userId;
                          jobPerms = parsePermissions D parse (asg_permissions assignment);
                          perms = capPermissions (asPermissions jobPerms)
                                    (asPermissions companyPerms)
                      in Some \<lparr>jw_job = job,
                           jw_items =
                             (if \<not> canViewPrices perms then
                                map (\<lambda>item. item\<lparr>item_unitPrice := ''0'',
                                                  item_lineTotal := ''0''\<rparr>) its
                              else its),
                           myRole = ''USER'',
                           permissions = Some perms,
                           companyPermissions = Some companyPerms\<rparr>)))))"

text \<open>
  \<open>getServices\<close>. The optional \<open>specialtyId\<close> filter is tested for truthiness, so \<open>0\<close>
  counts as absent. Rows come back in \<open>id\<close> order.
\<close>

definition getServices ::
  "Permissions \<Rightarrow> (string \<Rightarrow> json option) \<Rightarrow> Database \<Rightarrow> int \<Rightarrow> int \<Rightarrow> string \<Rightarrow> int option
     \<Rightarrow> Service list" where
  "getServices D parse db companyId userId role specialtyId =
     (if role = ''SUPPORT'' then []
      else
        let allowedIds = getAllowedSpecialtyIds D parse db userId companyId role in
        if allowedIds = [] then []
        else
          case (case specialtyId of None \<Rightarrow> None | Some s \<Rightarrow> if s \<noteq> 0 then Some s else None) of
            Some s \<Rightarrow>
              if s \<notin> set allowedIds then []
              else sort_key svc_id
                (filter (\<lambda>v. svc_companyId v = companyId \<and> svc_active v \<and> svc_specialtyId v = s)
                   (services db))
          | None \<Rightarrow>
              sort_key svc_id
                (filter (\<lambda>v. svc_companyId v = companyId \<and> svc_active v \<and>
                    svc_specialtyId v \<in> set allowedIds) (services db)))"


section \<open>Price redaction on the heap\<close>














text \<open>A job-item row as an object, to relate the heap reading to \<open>getJob\<close> above.\<close>

definition jobItemObject :: "JobItem \<Rightarrow> jsobject" where
  "jobItemObject it =
     [''id'' \<mapsto> JNum (of_int (item_id it)),
      ''jobId'' \<mapsto> JNum (of_int (item_jobId it)),
      ''qty'' \<mapsto> JStr (item_qty it),
      ''unitPrice'' \<mapsto> JStr (item_unitPrice it),
      ''lineTotal'' \<mapsto> JStr (item_lineTotal it)]"



section \<open>The photo-estimate price calculation\<close>





























section \<open>Constants of the shared schema, and a worked example\<close>

text \<open>
  Modelled from the spec: \<open>JOB_STATUSES\<close> is a constant of the shared schema module, which
  is not among the source files. The spec (3) gives the fixed ordered set of statuses.
\<close>

definition JOB_STATUSES :: "string list" where
  "JOB_STATUSES = [''DRAFT'', ''SENT'', ''APPROVED'', ''SCHEDULED'', ''IN_PROGRESS'', ''DONE'']"

text \<open>A job-assignment row exists for the user and the job.\<close>

definition directlyAssigned :: "Database \<Rightarrow> int \<Rightarrow> Job \<Rightarrow> bool" where
  "directlyAssigned db userId j =
     (\<exists>a \<in> set (jobAssignments db). asg_userId a = userId \<and> asg_jobId a = job_id j)"

text \<open>
  What \<open>JSON.parse\<close> answers on the permission blobs of the example (and on two texts that
  are not JSON objects); enough of the parser to run the example.
\<close>

definition exampleParse :: "string \<Rightarrow> json option" where
  \<open>exampleParse s =
     (if s = ''{"canViewAllSpecialties":true}'' then
        Some (JObj [(''canViewAllSpecialties'', JBool True)])
      else if s = ''{"canViewPrices":true}'' then
        Some (JObj [(''canViewPrices'', JBool True)])
      else if s = ''null'' then Some JNull
      else None)\<close>

text \<open>
  The example follows the end-to-end scenario of the spec (8): company 1 works in trade 1,
  whose specialties are 1 (stairs) and 2 (deck); specialty 3 belongs to trade 2. User 10 is
  the OWNER, 11 an ADMIN without flags, 12 an ADMIN with \<open>canViewAllSpecialties\<close>, 20 a USER
  assigned to specialty 1 and, directly, to job 2. Jobs 1, 2, 3 of company 1 have the
  specialties stairs, deck and none.
\<close>

definition exampleDb :: Database where
  \<open>exampleDb =
     \<lparr>jobs =
        [\<lparr>job_id = 1, job_companyId = 1, job_specialtyId = Some 1, job_status = ''DRAFT'',
          job_createdAt = 100\<rparr>,
         \<lparr>job_id = 2, job_companyId = 1, job_specialtyId = Some 2, job_status = ''SCHEDULED'',
          job_createdAt = 200\<rparr>,
         \<lparr>job_id = 3, job_companyId = 1, job_specialtyId = None, job_status = ''DONE'',
          job_createdAt = 300\<rparr>,
         \<lparr>job_id = 4, job_companyId = 2, job_specialtyId = Some 3, job_status = ''SENT'',
          job_createdAt = 50\<rparr>],
      jobItems =
        [\<lparr>item_id = 1, item_jobId = 2, item_qty = ''2'', item_unitPrice = ''120.00'',
          item_lineTotal = ''240.00''\<rparr>],
      jobAssignments =
        [\<lparr>asg_jobId = 2, asg_userId = 20, asg_permissions = None\<rparr>],
      companies =
        [\<lparr>co_id = 1, co_tradeId = Some 1\<rparr>, \<lparr>co_id = 2, co_tradeId = Some 2\<rparr>],
      companyUsers =
        [\<lparr>cu_companyId = 1, cu_userId = 10, cu_role = ''OWNER'', cu_permissions = None\<rparr>,
         \<lparr>cu_companyId = 1, cu_userId = 11, cu_role = ''ADMIN'', cu_permissions = None\<rparr>,
         \<lparr>cu_companyId = 1, cu_userId = 12, cu_role = ''ADMIN'',
          cu_permissions = Some ''{"canViewAllSpecialties":true}''\<rparr>,
         \<lparr>cu_companyId = 1, cu_userId = 20, cu_role = ''USER'', cu_permissions = None\<rparr>],
      specialties =
        [\<lparr>spec_id = 1, spec_tradeId = 1\<rparr>, \<lparr>spec_id = 2, spec_tradeId = 1\<rparr>,
         \<lparr>spec_id = 3, spec_tradeId = 2\<rparr>],
      userSpecialties =
        [\<lparr>us_companyId = 1, us_userId = 20, us_specialtyId = 1\<rparr>],
      services =
        [\<lparr>svc_id = 1, svc_companyId = 1, svc_specialtyId = 1, svc_active = True,
          svc_unitPrice = Some ''120.00''\<rparr>]\<rparr>\<close>


section \<open>Unresolvable requests and referential integrity\<close>





text \<open>The sum of the five per-status counters of a stats record.\<close>

definition bucketSum :: "Stats \<Rightarrow> nat" where
  "bucketSum s = drafts s + sent s + approved s + inProgress s + doneJobs s"


text \<open>
  The row of a key: \<open>companies.id\<close> is the primary key, and \<open>company_users\<close> has a unique
  index on \<open>(company_id, user_id)\<close> (\<open>server/migrate.ts\<close>), so a lookup by key finds at most
  one row.
\<close>

definition companyRow :: "Database \<Rightarrow> int \<Rightarrow> Company \<Rightarrow> bool" where
  "companyRow db companyId co =
     (co \<in> set (companies db) \<and> co_id co = companyId \<and>
      (\<forall>co' \<in> set (companies db). co_id co' = companyId \<longrightarrow> co' = co))"

definition membershipRow :: "Database \<Rightarrow> int \<Rightarrow> int \<Rightarrow> CompanyUser \<Rightarrow> bool" where
  "membershipRow db companyId userId cu =
     (cu \<in> set (companyUsers db) \<and> cu_companyId cu = companyId \<and> cu_userId cu = userId \<and>
      (\<forall>cu' \<in> set (companyUsers db).
          cu_companyId cu' = companyId \<and> cu_userId cu' = userId \<longrightarrow> cu' = cu))"


section \<open>Unfolding the example\<close>

lemmas example_defs =
  exampleDb_def exampleParse_def getAllowedSpecialtyIds_def getCompanyTradeId_def
  getCompanyUserPermissions_def parsePermissions_def spread_def truthyProp_def permObject_def
  tradeSpecialtyIds_def assignedSpecialtyIds_def getJobs_def getJob_def companyJobs_def
  withStats_def noJobs_def asPermissions_def capPermissions_def AllFalse_def AllTrue_def
  directlyAssigned_def

section \<open>Permission capping\<close>

text \<open>
  C1. For every job-level record \<open>P\<close> and company ceiling \<open>C\<close>, each flag of
  \<open>capPermissions P C\<close> is the logical AND of the corresponding flags of \<open>P\<close> and \<open>C\<close>.
  Consequently the result lies below both arguments, capping is monotone in both arguments
  under the pointwise boolean ordering, \<open>AllTrue\<close> is neutral, \<open>AllFalse\<close> is absorbing,
  and capping twice with the same ceiling changes nothing.
\<close>

theorem capPermissions_flagwise_and:
  "canManageUsers (capPermissions P C) = (canManageUsers P \<and> canManageUsers C)
   \<and> canViewAllSpecialties (capPermissions P C)
        = (canViewAllSpecialties P \<and> canViewAllSpecialties C)
   \<and> canViewPrices (capPermissions P C) = (canViewPrices P \<and> canViewPrices C)
   \<and> canEditPrices (capPermissions P C) = (canEditPrices P \<and> canEditPrices C)
   \<and> canAudit (capPermissions P C) = (canAudit P \<and> canAudit C)
   \<and> perm_le (capPermissions P C) P
   \<and> perm_le (capPermissions P C) C
   \<and> (perm_le P P' \<and> perm_le C C'
        \<longrightarrow> perm_le (capPermissions P C) (capPermissions P' C'))
   \<and> capPermissions P AllTrue = P
   \<and> capPermissions P AllFalse = AllFalse
   \<and> capPermissions (capPermissions P C) C = capPermissions P C"
  by (cases P; cases C; cases P'; cases C')
     (auto simp: capPermissions_def perm_le_def AllTrue_def AllFalse_def)

theorem capPermissions_flagwise_and_witness:
  "perm_le \<lparr>canManageUsers = True, canViewAllSpecialties = False, canViewPrices = False,
              canEditPrices = False, canAudit = True\<rparr>
           \<lparr>canManageUsers = True, canViewAllSpecialties = False, canViewPrices = True,
              canEditPrices = False, canAudit = True\<rparr>
   \<and> perm_le AllFalse AllTrue
   \<and> perm_le
        (capPermissions
           \<lparr>canManageUsers = True, canViewAllSpecialties = False, canViewPrices = False,
             canEditPrices = False, canAudit = True\<rparr> AllFalse)
        (capPermissions
           \<lparr>canManageUsers = True, canViewAllSpecialties = False, canViewPrices = True,
             canEditPrices = False, canAudit = True\<rparr> AllTrue)
   \<and> capPermissions
        \<lparr>canManageUsers = True, canViewAllSpecialties = False, canViewPrices = True,
          canEditPrices = False, canAudit = True\<rparr> AllTrue
       = \<lparr>canManageUsers = True, canViewAllSpecialties = False, canViewPrices = True,
          canEditPrices = False, canAudit = True\<rparr>"
  using capPermissions_flagwise_and
    [of "\<lparr>canManageUsers = True, canViewAllSpecialties = False, canViewPrices = False,
              canEditPrices = False, canAudit = True\<rparr>"
        AllFalse
        "\<lparr>canManageUsers = True, canViewAllSpecialties = False, canViewPrices = True,
              canEditPrices = False, canAudit = True\<rparr>"
        AllTrue]
  by (simp add: perm_le_def AllTrue_def AllFalse_def capPermissions_def)

section \<open>The SUPPORT override\<close>

text \<open>
  C2. Whatever the user, the company and the stored assignments and permissions are, a
  caller whose company role is SUPPORT gets no specialty ids from
  \<open>getAllowedSpecialtyIds\<close>, an empty item list with every counter zero from \<open>getJobs\<close>,
  and no services from \<open>getServices\<close>: the test for SUPPORT comes first in each operation.
\<close>

theorem support_sees_nothing:
  "getAllowedSpecialtyIds D parse db userId companyId ''SUPPORT'' = []
   \<and> getJobs D parse db userId ''SUPPORT'' companyId =
       \<lparr>items = [],
        stats = \<lparr>total = 0, drafts = 0, sent = 0, approved = 0, inProgress = 0, doneJobs = 0\<rparr>\<rparr>
   \<and> getServices D parse db companyId userId ''SUPPORT'' specialtyId = []"
  by (simp add: getAllowedSpecialtyIds_def getJobs_def getServices_def noJobs_def)


section \<open>Allowed-specialty resolution\<close>

lemma find_only_row:
  assumes "x \<in> set xs" and "P x" and "\<forall>y \<in> set xs. P y \<longrightarrow> y = x"
  shows "find P xs = Some x"
proof -
  have "find P xs \<noteq> None"
    using assms(1,2) by (auto simp: find_None_iff)
  then obtain z where z: "find P xs = Some z" by blast
  then have "P z" and "z \<in> set xs" by (auto simp: find_Some_iff)
  then have "z = x" using assms(3) by blast
  then show ?thesis using z by simp
qed

lemma company_trade_known:
  assumes "companyRow db companyId co" and "co_tradeId co = Some t"
  shows "getCompanyTradeId db companyId = t"
proof -
  have "find (\<lambda>c. co_id c = companyId) (companies db) = Some co"
    using assms(1) find_only_row [of co "companies db" "\<lambda>c. co_id c = companyId"]
    by (simp add: companyRow_def)
  then show ?thesis using assms(2) by (simp add: getCompanyTradeId_def)
qed

lemma membership_permissions_known:
  assumes "membershipRow db companyId userId cu"
  shows "getCompanyUserPermissions D parse db companyId userId
           = parsePermissions D parse (cu_permissions cu)"
proof -
  have "find (\<lambda>c. cu_companyId c = companyId \<and> cu_userId c = userId) (companyUsers db)
          = Some cu"
    using assms
      find_only_row [of cu "companyUsers db"
        "\<lambda>c. cu_companyId c = companyId \<and> cu_userId c = userId"]
    by (simp add: membershipRow_def)
  then show ?thesis by (simp add: getCompanyUserPermissions_def)
qed

text \<open>
  C3. For a role other than SUPPORT, \<open>getAllowedSpecialtyIds\<close> resolves in order. When the
  company's row gives trade \<open>t\<close>: an OWNER gets the ids of exactly the specialties of
  trade \<open>t\<close>, whatever the specialty assignments and membership rows are (so also with
  no assignment at all); an ADMIN gets the same when the permission blob of the ADMIN's
  own membership row in this company has \<open>canViewAllSpecialties\<close> set. Everyone else (an
  ADMIN without the flag, a USER) gets exactly the specialty ids of the assignment rows
  for \<open>(userId, companyId)\<close>, possibly none.
\<close>

theorem getAllowedSpecialtyIds_resolution:
  assumes "role \<noteq> ''SUPPORT''"
  shows "getAllowedSpecialtyIds D parse db userId companyId role =
     (if role = ''OWNER'' \<or>
         (role = ''ADMIN'' \<and>
          truthyProp (getCompanyUserPermissions D parse db companyId userId)
            ''canViewAllSpecialties'')
      then map spec_id
             (filter (\<lambda>s. spec_tradeId s = getCompanyTradeId db companyId) (specialties db))
      else map us_specialtyId
             (filter (\<lambda>r. us_userId r = userId \<and> us_companyId r = companyId)
                (userSpecialties db)))
   \<and> getAllowedSpecialtyIds D parse (db\<lparr>userSpecialties := us, companyUsers := cus\<rparr>)
         userId companyId ''OWNER''
       = getAllowedSpecialtyIds D parse db userId companyId ''OWNER''
   \<and> (\<forall>co t. companyRow db companyId co \<and> co_tradeId co = Some t \<longrightarrow>
         getCompanyTradeId db companyId = t \<and>
         (role = ''OWNER'' \<longrightarrow>
            getAllowedSpecialtyIds D parse db userId companyId role
              = map spec_id (filter (\<lambda>s. spec_tradeId s = t) (specialties db))) \<and>
         (\<forall>cu. role = ''ADMIN'' \<and> membershipRow db companyId userId cu \<longrightarrow>
            getAllowedSpecialtyIds D parse db userId companyId role
              = (if truthyProp (parsePermissions D parse (cu_permissions cu))
                      ''canViewAllSpecialties''
                 then map spec_id (filter (\<lambda>s. spec_tradeId s = t) (specialties db))
                 else map us_specialtyId
                        (filter (\<lambda>r. us_userId r = userId \<and> us_companyId r = companyId)
                           (userSpecialties db)))))
   \<and> (role \<noteq> ''OWNER'' \<and> role \<noteq> ''ADMIN'' \<longrightarrow>
         getAllowedSpecialtyIds D parse db userId companyId role
           = map us_specialtyId
               (filter (\<lambda>r. us_userId r = userId \<and> us_companyId r = companyId)
                  (userSpecialties db)))"
proof -
  have eq: "getAllowedSpecialtyIds D parse db userId companyId role =
     (if role = ''OWNER'' \<or>
         (role = ''ADMIN'' \<and>
          truthyProp (getCompanyUserPermissions D parse db companyId userId)
            ''canViewAllSpecialties'')
      then map spec_id
             (filter (\<lambda>s. spec_tradeId s = getCompanyTradeId db companyId) (specialties db))
      else map us_specialtyId
             (filter (\<lambda>r. us_userId r = userId \<and> us_companyId r = companyId)
                (userSpecialties db)))"
    using assms
    by (auto simp: getAllowedSpecialtyIds_def tradeSpecialtyIds_def assignedSpecialtyIds_def
        Let_def)
  have indep: "getAllowedSpecialtyIds D parse (db\<lparr>userSpecialties := us, companyUsers := cus\<rparr>)
         userId companyId ''OWNER''
       = getAllowedSpecialtyIds D parse db userId companyId ''OWNER''"
    by (simp add: getAllowedSpecialtyIds_def tradeSpecialtyIds_def getCompanyTradeId_def)
  have pinned: "\<forall>co t. companyRow db companyId co \<and> co_tradeId co = Some t \<longrightarrow>
         getCompanyTradeId db companyId = t \<and>
         (role = ''OWNER'' \<longrightarrow>
            getAllowedSpecialtyIds D parse db userId companyId role
              = map spec_id (filter (\<lambda>s. spec_tradeId s = t) (specialties db))) \<and>
         (\<forall>cu. role = ''ADMIN'' \<and> membershipRow db companyId userId cu \<longrightarrow>
            getAllowedSpecialtyIds D parse db userId companyId role
              = (if truthyProp (parsePermissions D parse (cu_permissions cu))
                      ''canViewAllSpecialties''
                 then map spec_id (filter (\<lambda>s. spec_tradeId s = t) (specialties db))
                 else map us_specialtyId
                        (filter (\<lambda>r. us_userId r = userId \<and> us_companyId r = companyId)
                           (userSpecialties db))))"
  proof (intro allI impI)
    fix co t
    assume h: "companyRow db companyId co \<and> co_tradeId co = Some t"
    have t: "getCompanyTradeId db companyId = t"
      using h company_trade_known by blast
    show "getCompanyTradeId db companyId = t \<and>
         (role = ''OWNER'' \<longrightarrow>
            getAllowedSpecialtyIds D parse db userId companyId role
              = map spec_id (filter (\<lambda>s. spec_tradeId s = t) (specialties db))) \<and>
         (\<forall>cu. role = ''ADMIN'' \<and> membershipRow db companyId userId cu \<longrightarrow>
            getAllowedSpecialtyIds D parse db userId companyId role
              = (if truthyProp (parsePermissions D parse (cu_permissions cu))
                      ''canViewAllSpecialties''
                 then map spec_id (filter (\<lambda>s. spec_tradeId s = t) (specialties db))
                 else map us_specialtyId
                        (filter (\<lambda>r. us_userId r = userId \<and> us_companyId r = companyId)
                           (userSpecialties db))))"
    proof (intro conjI allI impI)
      show "getCompanyTradeId db companyId = t" by (rule t)
    next
      assume "role = ''OWNER''"
      then show "getAllowedSpecialtyIds D parse db userId companyId role
              = map spec_id (filter (\<lambda>s. spec_tradeId s = t) (specialties db))"
        using eq t by simp
    next
      fix cu
      assume a: "role = ''ADMIN'' \<and> membershipRow db companyId userId cu"
      then have p: "getCompanyUserPermissions D parse db companyId userId
           = parsePermissions D parse (cu_permissions cu)"
        by (simp add: membership_permissions_known)
      show "getAllowedSpecialtyIds D parse db userId companyId role
              = (if truthyProp (parsePermissions D parse (cu_permissions cu))
                      ''canViewAllSpecialties''
                 then map spec_id (filter (\<lambda>s. spec_tradeId s = t) (specialties db))
                 else map us_specialtyId
                        (filter (\<lambda>r. us_userId r = userId \<and> us_companyId r = companyId)
                           (userSpecialties db)))"
        using a eq t p by simp
    qed
  qed
  have other: "role \<noteq> ''OWNER'' \<and> role \<noteq> ''ADMIN'' \<longrightarrow>
         getAllowedSpecialtyIds D parse db userId companyId role
           = map us_specialtyId
               (filter (\<lambda>r. us_userId r = userId \<and> us_companyId r = companyId)
                  (userSpecialties db))"
    unfolding eq by simp
  show ?thesis
    by (rule conjI [OF eq conjI [OF indep conjI [OF pinned other]]])
qed

theorem getAllowedSpecialtyIds_resolution_witness:
  \<open>''ADMIN'' \<noteq> ''SUPPORT'' \<and> ''OWNER'' \<noteq> ''SUPPORT'' \<and> ''USER'' \<noteq> ''SUPPORT''
   \<and> companyRow (exampleDb\<lparr>companies := [\<lparr>co_id = 1, co_tradeId = Some 2\<rparr>]\<rparr>) 1
        \<lparr>co_id = 1, co_tradeId = Some 2\<rparr>
   \<and> getCompanyTradeId (exampleDb\<lparr>companies := [\<lparr>co_id = 1, co_tradeId = Some 2\<rparr>]\<rparr>) 1 = 2
   \<and> getAllowedSpecialtyIds AllFalse exampleParse
        (exampleDb\<lparr>companies := [\<lparr>co_id = 1, co_tradeId = Some 2\<rparr>]\<rparr>) 10 1 ''OWNER'' = [3]
   \<and> membershipRow (exampleDb\<lparr>companies := [\<lparr>co_id = 1, co_tradeId = Some 2\<rparr>]\<rparr>) 1 12
        \<lparr>cu_companyId = 1, cu_userId = 12, cu_role = ''ADMIN'',
          cu_permissions = Some ''{"canViewAllSpecialties":true}''\<rparr>
   \<and> getAllowedSpecialtyIds AllFalse exampleParse
        (exampleDb\<lparr>companies := [\<lparr>co_id = 1, co_tradeId = Some 2\<rparr>]\<rparr>) 12 1 ''ADMIN'' = [3]
   \<and> getAllowedSpecialtyIds AllFalse exampleParse exampleDb 10 1 ''OWNER'' = [1, 2]
   \<and> getAllowedSpecialtyIds AllFalse exampleParse (exampleDb\<lparr>userSpecialties := []\<rparr>)
        10 1 ''OWNER'' = [1, 2]
   \<and> getAllowedSpecialtyIds AllFalse exampleParse exampleDb 12 1 ''ADMIN'' = [1, 2]
   \<and> getAllowedSpecialtyIds AllFalse exampleParse exampleDb 11 1 ''ADMIN'' = []
   \<and> getAllowedSpecialtyIds AllFalse exampleParse exampleDb 20 1 ''USER'' = [1]\<close>
proof -
  let ?db = "exampleDb\<lparr>companies := [\<lparr>co_id = 1, co_tradeId = Some 2\<rparr>]\<rparr>"
  let ?co = "\<lparr>co_id = 1, co_tradeId = Some 2\<rparr>"
  let ?cu = \<open>\<lparr>cu_companyId = 1, cu_userId = 12, cu_role = ''ADMIN'',
          cu_permissions = Some ''{"canViewAllSpecialties":true}''\<rparr>\<close>
  have ne: "''ADMIN'' \<noteq> ''SUPPORT''" "''OWNER'' \<noteq> ''SUPPORT''" "''USER'' \<noteq> ''SUPPORT''"
    by simp_all
  have c: "companyRow ?db 1 ?co \<and> co_tradeId ?co = Some 2"
    by (simp add: companyRow_def exampleDb_def)
  have m: "''ADMIN'' = ''ADMIN'' \<and> membershipRow ?db 1 12 ?cu"
    by (simp add: membershipRow_def exampleDb_def)
  have flag: "truthyProp (parsePermissions AllFalse exampleParse (cu_permissions ?cu))
      ''canViewAllSpecialties''"
    by (simp add: parsePermissions_def exampleParse_def spread_def truthyProp_def)
  have trade2: "map spec_id (filter (\<lambda>s. spec_tradeId s = 2) (specialties ?db)) = [3]"
    by (simp add: exampleDb_def)
  note owner = getAllowedSpecialtyIds_resolution [OF ne(2), of AllFalse exampleParse ?db 10 1,
      THEN conjunct2, THEN conjunct2, THEN conjunct1, rule_format, OF c]
  note admin = getAllowedSpecialtyIds_resolution [OF ne(1), of AllFalse exampleParse ?db 12 1,
      THEN conjunct2, THEN conjunct2, THEN conjunct1, rule_format, OF c]
  have t: "getCompanyTradeId ?db 1 = 2"
    by (rule owner [THEN conjunct1])
  have o: "getAllowedSpecialtyIds AllFalse exampleParse ?db 10 1 ''OWNER''
      = map spec_id (filter (\<lambda>s. spec_tradeId s = 2) (specialties ?db))"
    by (rule owner [THEN conjunct2, THEN conjunct1, rule_format, OF refl])
  have "getAllowedSpecialtyIds AllFalse exampleParse ?db 12 1 ''ADMIN''
      = (if truthyProp (parsePermissions AllFalse exampleParse (cu_permissions ?cu))
              ''canViewAllSpecialties''
         then map spec_id (filter (\<lambda>s. spec_tradeId s = 2) (specialties ?db))
         else map us_specialtyId
                (filter (\<lambda>r. us_userId r = 12 \<and> us_companyId r = 1) (userSpecialties ?db)))"
    by (rule admin [THEN conjunct2, THEN conjunct2, rule_format, OF m])
  then have a: "getAllowedSpecialtyIds AllFalse exampleParse ?db 12 1 ''ADMIN''
      = map spec_id (filter (\<lambda>s. spec_tradeId s = 2) (specialties ?db))"
    by (simp only: flag if_True)
  have rest: "getAllowedSpecialtyIds AllFalse exampleParse exampleDb 10 1 ''OWNER'' = [1, 2]"
    "getAllowedSpecialtyIds AllFalse exampleParse (exampleDb\<lparr>userSpecialties := []\<rparr>)
        10 1 ''OWNER'' = [1, 2]"
    "getAllowedSpecialtyIds AllFalse exampleParse exampleDb 12 1 ''ADMIN'' = [1, 2]"
    "getAllowedSpecialtyIds AllFalse exampleParse exampleDb 11 1 ''ADMIN'' = []"
    "getAllowedSpecialtyIds AllFalse exampleParse exampleDb 20 1 ''USER'' = [1]"
    by (simp_all add: example_defs)
  show ?thesis
    using ne c m t rest by (simp only: o a trade2 simp_thms)
qed


section \<open>Job visibility\<close>

lemma getJobs_privileged_items:
  assumes "role = ''OWNER'' \<or> role = ''ADMIN''"
  shows "items (getJobs D parse db userId role companyId) = companyJobs db companyId"
  using assms by (auto simp: getJobs_def withStats_def)

lemma getJobs_user_items:
  assumes "role \<noteq> ''SUPPORT''" and "role \<noteq> ''OWNER''" and "role \<noteq> ''ADMIN''"
  shows "items (getJobs D parse db userId role companyId) =
     filter (\<lambda>j. job_id j \<in> set (map asg_jobId
                      (filter (\<lambda>a. asg_userId a = userId) (jobAssignments db))) \<or>
                 (case job_specialtyId j of
                    None \<Rightarrow> False
                  | Some s \<Rightarrow> s \<noteq> 0 \<and>
                      s \<in> set (getAllowedSpecialtyIds D parse db userId companyId role)))
       (companyJobs db companyId)"
  using assms
  by (cases "filter (\<lambda>a. asg_userId a = userId) (jobAssignments db) = []";
      cases "getAllowedSpecialtyIds D parse db userId companyId role = []")
     (simp_all add: getJobs_def noJobs_def withStats_def Let_def split: option.split)

lemma jobIds_includes:
  "(job_id j \<in> set (map asg_jobId (filter (\<lambda>a. asg_userId a = userId) (jobAssignments db))))
     = directlyAssigned db userId j"
  by (force simp: directlyAssigned_def)

lemma mset_companyJobs:
  "mset (companyJobs db companyId) = filter_mset (\<lambda>j. job_companyId j = companyId) (mset (jobs db))"
  by (simp add: companyJobs_def)

lemma getJobs_user_items_assigned:
  assumes "role \<noteq> ''SUPPORT''" and "role \<noteq> ''OWNER''" and "role \<noteq> ''ADMIN''"
  shows "items (getJobs D parse db userId role companyId) =
     filter (\<lambda>j. directlyAssigned db userId j \<or>
                 (case job_specialtyId j of
                    None \<Rightarrow> False
                  | Some s \<Rightarrow> s \<noteq> 0 \<and>
                      s \<in> set (getAllowedSpecialtyIds D parse db userId companyId role)))
       (companyJobs db companyId)"
  unfolding jobIds_includes [symmetric] using assms by (rule getJobs_user_items)

text \<open>
  C4. An OWNER or ADMIN gets every job of the company, each exactly once, unfiltered. Any
  other non-SUPPORT caller (a USER) gets exactly the company's jobs that have a
  job-assignment row for the user or whose specialty is in the user's allowed-specialty
  set: a job outside the set is included when directly assigned, and left out when it is
  neither in the set nor assigned. Specialty ids are SERIAL keys, so no job refers to
  specialty 0, which the truthiness test \<open>j.specialtyId && ...\<close> would skip.
\<close>

theorem getJobs_visibility:
  assumes "role \<noteq> ''SUPPORT''"
  shows
    "(role = ''OWNER'' \<or> role = ''ADMIN'' \<longrightarrow>
        mset (items (getJobs D parse db userId role companyId))
          = filter_mset (\<lambda>j. job_companyId j = companyId) (mset (jobs db)))
     \<and> (role \<noteq> ''OWNER'' \<and> role \<noteq> ''ADMIN'' \<and>
         (\<forall>j \<in> set (jobs db). job_specialtyId j \<noteq> Some 0) \<longrightarrow>
        mset (items (getJobs D parse db userId role companyId))
          = filter_mset
              (\<lambda>j. job_companyId j = companyId \<and>
                   (directlyAssigned db userId j \<or>
                    (\<exists>s. job_specialtyId j = Some s \<and>
                         s \<in> set (getAllowedSpecialtyIds D parse db userId companyId role))))
              (mset (jobs db)))"
proof (intro conjI impI)
  assume "role = ''OWNER'' \<or> role = ''ADMIN''"
  then show "mset (items (getJobs D parse db userId role companyId))
          = filter_mset (\<lambda>j. job_companyId j = companyId) (mset (jobs db))"
    by (simp add: getJobs_privileged_items mset_companyJobs)
next
  assume h: "role \<noteq> ''OWNER'' \<and> role \<noteq> ''ADMIN'' \<and>
         (\<forall>j \<in> set (jobs db). job_specialtyId j \<noteq> Some 0)"
  have it: "items (getJobs D parse db userId role companyId) =
     filter (\<lambda>j. directlyAssigned db userId j \<or>
                 (case job_specialtyId j of
                    None \<Rightarrow> False
                  | Some s \<Rightarrow> s \<noteq> 0 \<and>
                      s \<in> set (getAllowedSpecialtyIds D parse db userId companyId role)))
       (companyJobs db companyId)"
    using assms h by (intro getJobs_user_items_assigned) simp_all
  have "mset (items (getJobs D parse db userId role companyId)) =
     filter_mset (\<lambda>j. job_companyId j = companyId \<and>
                (directlyAssigned db userId j \<or>
                 (case job_specialtyId j of
                    None \<Rightarrow> False
                  | Some s \<Rightarrow> s \<noteq> 0 \<and>
                      s \<in> set (getAllowedSpecialtyIds D parse db userId companyId role))))
       (mset (jobs db))"
    by (simp only: it mset_filter mset_companyJobs filter_filter_mset)
  also have "\<dots> = filter_mset
              (\<lambda>j. job_companyId j = companyId \<and>
                   (directlyAssigned db userId j \<or>
                    (\<exists>s. job_specialtyId j = Some s \<and>
                         s \<in> set (getAllowedSpecialtyIds D parse db userId companyId role))))
              (mset (jobs db))"
    using h by (intro filter_mset_cong refl) (auto split: option.splits)
  finally show "mset (items (getJobs D parse db userId role companyId))
          = filter_mset
              (\<lambda>j. job_companyId j = companyId \<and>
                   (directlyAssigned db userId j \<or>
                    (\<exists>s. job_specialtyId j = Some s \<and>
                         s \<in> set (getAllowedSpecialtyIds D parse db userId companyId role))))
              (mset (jobs db))" .
qed

theorem getJobs_visibility_witness:
  "''USER'' \<noteq> ''SUPPORT'' \<and> ''OWNER'' \<noteq> ''SUPPORT''
   \<and> list_all (\<lambda>j. job_specialtyId j \<noteq> Some 0) (jobs exampleDb)
   \<and> map job_id (items (getJobs AllFalse exampleParse exampleDb 10 ''OWNER'' 1)) = [1, 2, 3]
   \<and> map job_id (items (getJobs AllFalse exampleParse exampleDb 11 ''ADMIN'' 1)) = [1, 2, 3]
   \<and> getAllowedSpecialtyIds AllFalse exampleParse exampleDb 20 1 ''USER'' = [1]
   \<and> map job_id (items (getJobs AllFalse exampleParse exampleDb 20 ''USER'' 1)) = [1, 2]
   \<and> map job_id (items (getJobs AllFalse exampleParse
        (exampleDb\<lparr>jobAssignments := []\<rparr>) 20 ''USER'' 1)) = [1]"
  using getJobs_visibility [of "''OWNER''" AllFalse exampleParse exampleDb 10 1]
        getJobs_visibility [of "''USER''" AllFalse exampleParse exampleDb 20 1]
  by (simp add: example_defs)


section \<open>Failing closed\<close>












section \<open>Price redaction\<close>






lemma redaction_of_item_object:
  "(jobItemObject it)(''unitPrice'' \<mapsto> JStr ''0'', ''lineTotal'' \<mapsto> JStr ''0'')
     = jobItemObject (it\<lparr>item_unitPrice := ''0'', item_lineTotal := ''0''\<rparr>)"
  by (auto simp: jobItemObject_def fun_eq_iff)




section \<open>Stats by status\<close>

lemma noJobs_withStats: "noJobs = withStats []"
  by (simp add: noJobs_def withStats_def)

lemma getJobs_withStats:
  "getJobs D parse db userId role companyId
     = withStats (items (getJobs D parse db userId role companyId))"
  by (cases "role = ''SUPPORT''"; cases "role = ''OWNER'' \<or> role = ''ADMIN''";
      cases "filter (\<lambda>a. asg_userId a = userId) (jobAssignments db) = []";
      cases "getAllowedSpecialtyIds D parse db userId companyId role = []")
     (simp_all add: getJobs_def noJobs_def withStats_def Let_def)

lemma five_buckets_and_scheduled:
  assumes "list_all (\<lambda>j. job_status j \<in> set JOB_STATUSES) jl"
  shows "length (filter (\<lambda>j. job_status j = ''DRAFT'') jl)
       + length (filter (\<lambda>j. job_status j = ''SENT'') jl)
       + length (filter (\<lambda>j. job_status j = ''APPROVED'') jl)
       + length (filter (\<lambda>j. job_status j = ''IN_PROGRESS'') jl)
       + length (filter (\<lambda>j. job_status j = ''DONE'') jl)
       + length (filter (\<lambda>j. job_status j = ''SCHEDULED'') jl) = length jl"
  using assms
proof (induction jl)
  case Nil
  then show ?case by simp
next
  case (Cons j jl)
  then have "job_status j \<in> set JOB_STATUSES" by simp
  then consider "job_status j = ''DRAFT''" | "job_status j = ''SENT''"
    | "job_status j = ''APPROVED''" | "job_status j = ''SCHEDULED''"
    | "job_status j = ''IN_PROGRESS''" | "job_status j = ''DONE''"
    by (auto simp: JOB_STATUSES_def)
  then show ?case using Cons by cases simp_all
qed

lemma five_buckets_le:
  "length (filter (\<lambda>j. job_status j = ''DRAFT'') jl)
       + length (filter (\<lambda>j. job_status j = ''SENT'') jl)
       + length (filter (\<lambda>j. job_status j = ''APPROVED'') jl)
       + length (filter (\<lambda>j. job_status j = ''IN_PROGRESS'') jl)
       + length (filter (\<lambda>j. job_status j = ''DONE'') jl) \<le> length jl"
  by (induction jl) auto

text \<open>
  C7 (as amended). The stats that accompany the list returned by \<open>getJobs\<close> are counts
  over that list: \<open>total\<close> is its length and \<open>drafts\<close>, \<open>sent\<close>, \<open>approved\<close>,
  \<open>inProgress\<close>, \<open>done\<close> count the returned jobs with status DRAFT, SENT, APPROVED,
  IN_PROGRESS and DONE. There is no counter for SCHEDULED: a returned job is counted in at
  most one bucket, the five counters never exceed \<open>total\<close>, and when the statuses are
  drawn from the fixed set the counters and the number of returned SCHEDULED jobs add up
  to \<open>total\<close>.
\<close>

theorem getJobs_stats_count_by_status:
  assumes "res = getJobs D parse db userId role companyId"
  shows "Stats.total (stats res) = length (items res)
   \<and> drafts (stats res) = length (filter (\<lambda>j. job_status j = ''DRAFT'') (items res))
   \<and> sent (stats res) = length (filter (\<lambda>j. job_status j = ''SENT'') (items res))
   \<and> approved (stats res) = length (filter (\<lambda>j. job_status j = ''APPROVED'') (items res))
   \<and> inProgress (stats res)
        = length (filter (\<lambda>j. job_status j = ''IN_PROGRESS'') (items res))
   \<and> doneJobs (stats res) = length (filter (\<lambda>j. job_status j = ''DONE'') (items res))
   \<and> bucketSum (stats res) \<le> Stats.total (stats res)
   \<and> (list_all (\<lambda>j. job_status j \<in> set JOB_STATUSES) (items res) \<longrightarrow>
        bucketSum (stats res)
          + length (filter (\<lambda>j. job_status j = ''SCHEDULED'') (items res))
        = Stats.total (stats res))"
proof -
  define jl where "jl = items res"
  have r: "res = withStats jl"
    unfolding jl_def assms by (rule getJobs_withStats)
  show ?thesis
    unfolding r
    using five_buckets_le [of jl] five_buckets_and_scheduled [of jl]
    by (simp add: withStats_def bucketSum_def)
qed

theorem getJobs_stats_count_by_status_witness:
  "map job_status (items (getJobs AllFalse exampleParse exampleDb 20 ''USER'' 1))
     = [''DRAFT'', ''SCHEDULED'']
   \<and> list_all (\<lambda>j. job_status j \<in> set JOB_STATUSES)
        (items (getJobs AllFalse exampleParse exampleDb 20 ''USER'' 1))
   \<and> Stats.total (stats (getJobs AllFalse exampleParse exampleDb 20 ''USER'' 1)) = 2
   \<and> drafts (stats (getJobs AllFalse exampleParse exampleDb 20 ''USER'' 1)) = 1
   \<and> bucketSum (stats (getJobs AllFalse exampleParse exampleDb 20 ''USER'' 1)) = 1"
  using getJobs_stats_count_by_status
    [of "getJobs AllFalse exampleParse exampleDb 20 ''USER'' 1"
        AllFalse exampleParse exampleDb 20 "''USER''" 1]
  by (simp add: example_defs JOB_STATUSES_def bucketSum_def)

text \<open>
  The five counters need not add up to \<open>total\<close>: the OWNER of the example sees three
  jobs (DRAFT, SCHEDULED, DONE), all with statuses of the fixed set, and the counters add
  up to two.
\<close>

theorem stats_buckets_sum_to_total_counterexample:
  "list_all (\<lambda>j. job_status j \<in> set JOB_STATUSES)
        (items (getJobs AllFalse exampleParse exampleDb 10 ''OWNER'' 1))
   \<and> Stats.total (stats (getJobs AllFalse exampleParse exampleDb 10 ''OWNER'' 1)) = 3
   \<and> bucketSum (stats (getJobs AllFalse exampleParse exampleDb 10 ''OWNER'' 1)) = 2
   \<and> bucketSum (stats (getJobs AllFalse exampleParse exampleDb 10 ''OWNER'' 1))
       \<noteq> Stats.total (stats (getJobs AllFalse exampleParse exampleDb 10 ''OWNER'' 1))"
  by (simp add: example_defs JOB_STATUSES_def bucketSum_def)

section \<open>Rounding error of the price calculation\<close>































section \<open>Price calculation\<close>

















section \<open>Job detail\<close>

text \<open>
  C9. For a caller that is neither SUPPORT, OWNER nor ADMIN (a USER), \<open>getJob\<close> returns a
  job only if a job-assignment row exists for the job and the user. Without such a row it
  returns \<open>undefined\<close> even when the job's specialty is in the user's allowed-specialty
  set: a job that \<open>getJobs\<close> lists through the specialty match alone cannot be fetched
  through the job-detail operation.
\<close>

theorem getJob_user_needs_assignment:
  assumes "role \<noteq> ''SUPPORT''" and "role \<noteq> ''OWNER''" and "role \<noteq> ''ADMIN''"
  shows "(getJob D parse db jid userId role companyId \<noteq> None \<longrightarrow>
           (\<exists>a \<in> set (jobAssignments db). asg_jobId a = jid \<and> asg_userId a = userId))
   \<and> (\<forall>j s. j \<in> set (jobs db) \<and> job_companyId j = companyId \<and>
            job_specialtyId j = Some s \<and> s \<noteq> 0 \<and>
            s \<in> set (getAllowedSpecialtyIds D parse db userId companyId role) \<and>
            \<not> directlyAssigned db userId j \<longrightarrow>
          j \<in> set (items (getJobs D parse db userId role companyId)) \<and>
          getJob D parse db (job_id j) userId role companyId = None)"
proof (intro conjI allI impI)
  assume "getJob D parse db jid userId role companyId \<noteq> None"
  then obtain a where
    "find (\<lambda>a. asg_jobId a = jid \<and> asg_userId a = userId) (jobAssignments db) = Some a"
    using assms by (auto simp: getJob_def Let_def split: option.splits)
  then have "a \<in> set (jobAssignments db) \<and> asg_jobId a = jid \<and> asg_userId a = userId"
    by (auto simp: find_Some_iff)
  then show "\<exists>a \<in> set (jobAssignments db). asg_jobId a = jid \<and> asg_userId a = userId"
    by blast
next
  fix j s
  assume h: "j \<in> set (jobs db) \<and> job_companyId j = companyId \<and>
            job_specialtyId j = Some s \<and> s \<noteq> 0 \<and>
            s \<in> set (getAllowedSpecialtyIds D parse db userId companyId role) \<and>
            \<not> directlyAssigned db userId j"
  show "j \<in> set (items (getJobs D parse db userId role companyId))"
    using assms h by (simp add: getJobs_user_items_assigned companyJobs_def)
  have "find (\<lambda>a. asg_jobId a = job_id j \<and> asg_userId a = userId) (jobAssignments db) = None"
    using h by (auto simp: find_None_iff directlyAssigned_def)
  then show "getJob D parse db (job_id j) userId role companyId = None"
    using assms by (simp add: getJob_def Let_def split: option.splits)
qed

theorem getJob_user_needs_assignment_witness:
  "''USER'' \<noteq> ''SUPPORT'' \<and> ''USER'' \<noteq> ''OWNER'' \<and> ''USER'' \<noteq> ''ADMIN''
   \<and> map job_id (items (getJobs AllFalse exampleParse exampleDb 20 ''USER'' 1)) = [1, 2]
   \<and> \<not> directlyAssigned exampleDb 20 (hd (jobs exampleDb))
   \<and> getJob AllFalse exampleParse exampleDb 1 20 ''USER'' 1 = None
   \<and> map_option (job_id \<circ> jw_job) (getJob AllFalse exampleParse exampleDb 2 20 ''USER'' 1)
       = Some 2
   \<and> map_option (job_id \<circ> jw_job) (getJob AllFalse exampleParse exampleDb 1 10 ''OWNER'' 1)
       = Some 1"
  using getJob_user_needs_assignment [of "''USER''" AllFalse exampleParse exampleDb 1 20 1]
        getJob_user_needs_assignment [of "''USER''" AllFalse exampleParse exampleDb 2 20 1]
  by (simp add: example_defs)


section \<open>Reading a stored permission blob\<close>

lemma dom_permObject: "dom (permObject D) = set flagNames"
  by (auto simp: permObject_def flagNames_def split: if_splits)

lemma spread_object_lookup:
  "spread a (JObj kvs) k = (if k \<in> fst ` set kvs then map_of (rev kvs) k else a k)"
proof (cases "k \<in> fst ` set kvs")
  case True
  then have "k \<in> fst ` set (rev kvs)" by simp
  then obtain v where "map_of (rev kvs) k = Some v"
    by (metis domD dom_map_of_conv_image_fst)
  then show ?thesis using True by (simp add: spread_def map_add_def)
next
  case False
  then have "map_of (rev kvs) k = None"
    by (simp add: map_of_eq_None_iff)
  then show ?thesis using False by (simp add: spread_def map_add_def)
qed

lemma spread_object_distinct:
  assumes "distinct (map fst kvs)" and "(k, v) \<in> set kvs"
  shows "spread a (JObj kvs) k = Some v"
proof -
  have "distinct (map fst (rev kvs))" using assms(1) by (simp add: rev_map [symmetric])
  moreover have "(k, v) \<in> set (rev kvs)" using assms(2) by simp
  ultimately have "map_of (rev kvs) k = Some v" by (rule map_of_is_SomeI)
  then show ?thesis by (simp add: spread_def map_add_def)
qed

lemma flags_in_spread: "set flagNames \<subseteq> dom (spread (permObject D) v)"
  by (auto simp: spread_def dom_permObject)

text \<open>
  C10. \<open>parsePermissions\<close> is total and has no failing branch: \<open>null\<close>, the empty string
  and a text on which \<open>JSON.parse\<close> throws all give the baseline of default employee
  permissions. The result always has the five flags. When the text parses to an object,
  the object is merged over the baseline: a flag the object lacks keeps its baseline
  value, and a member of the object is taken as it is.
\<close>

theorem parsePermissions_total_merge:
  "((raw = None \<or> raw = Some [] \<or> (\<exists>s. raw = Some s \<and> parse s = None))
      \<longrightarrow> parsePermissions D parse raw = permObject D)
   \<and> dom (permObject D) = set flagNames
   \<and> set flagNames \<subseteq> dom (parsePermissions D parse raw)
   \<and> (\<forall>s kvs. raw = Some s \<and> s \<noteq> [] \<and> parse s = Some (JObj kvs) \<longrightarrow>
         (\<forall>k. k \<notin> fst ` set kvs \<longrightarrow> parsePermissions D parse raw k = permObject D k) \<and>
         (\<forall>k v. distinct (map fst kvs) \<and> (k, v) \<in> set kvs \<longrightarrow>
            parsePermissions D parse raw k = Some v))"
proof (intro conjI)
  show "(raw = None \<or> raw = Some [] \<or> (\<exists>s. raw = Some s \<and> parse s = None))
      \<longrightarrow> parsePermissions D parse raw = permObject D"
    by (auto simp: parsePermissions_def)
  show "dom (permObject D) = set flagNames" by (rule dom_permObject)
  show "set flagNames \<subseteq> dom (parsePermissions D parse raw)"
    using flags_in_spread [of D]
    by (auto simp: parsePermissions_def dom_permObject split: option.splits)
  show "\<forall>s kvs. raw = Some s \<and> s \<noteq> [] \<and> parse s = Some (JObj kvs) \<longrightarrow>
         (\<forall>k. k \<notin> fst ` set kvs \<longrightarrow> parsePermissions D parse raw k = permObject D k) \<and>
         (\<forall>k v. distinct (map fst kvs) \<and> (k, v) \<in> set kvs \<longrightarrow>
            parsePermissions D parse raw k = Some v)"
  proof (intro allI impI conjI)
    fix s kvs k
    assume "raw = Some s \<and> s \<noteq> [] \<and> parse s = Some (JObj kvs)" and "k \<notin> fst ` set kvs"
    then show "parsePermissions D parse raw k = permObject D k"
      by (simp add: parsePermissions_def spread_object_lookup)
  next
    fix s kvs k v
    assume "raw = Some s \<and> s \<noteq> [] \<and> parse s = Some (JObj kvs)"
      and "distinct (map fst kvs) \<and> (k, v) \<in> set kvs"
    then show "parsePermissions D parse raw k = Some v"
      by (simp add: parsePermissions_def spread_object_distinct)
  qed
qed

theorem parsePermissions_total_merge_witness:
  \<open>parsePermissions AllFalse exampleParse None = permObject AllFalse
   \<and> parsePermissions AllFalse exampleParse (Some []) = permObject AllFalse
   \<and> exampleParse ''{oops'' = None
   \<and> parsePermissions AllFalse exampleParse (Some ''{oops'') = permObject AllFalse
   \<and> exampleParse ''{"canViewPrices":true}'' = Some (JObj [(''canViewPrices'', JBool True)])
   \<and> parsePermissions AllFalse exampleParse (Some ''{"canViewPrices":true}'') ''canViewPrices''
       = Some (JBool True)
   \<and> parsePermissions AllFalse exampleParse (Some ''{"canViewPrices":true}'') ''canAudit''
       = Some (JBool False)
   \<and> map (parsePermissions AllFalse exampleParse (Some ''{"canViewPrices":true}'')) flagNames
       = [Some (JBool False), Some (JBool False), Some (JBool True), Some (JBool False),
          Some (JBool False)]\<close>
  using parsePermissions_total_merge [of None exampleParse AllFalse]
        parsePermissions_total_merge [of "Some []" exampleParse AllFalse]
        parsePermissions_total_merge [of "Some ''{oops''" exampleParse AllFalse]
        parsePermissions_total_merge
          [of \<open>Some ''{"canViewPrices":true}''\<close> exampleParse AllFalse]
  by (simp add: exampleParse_def permObject_def AllFalse_def flagNames_def
      parsePermissions_def spread_def)

end
